theory Spec2Isabelle
  imports Complex_Main
begin

section \<open>Exceptions, results and the Python built-ins the program uses\<close>

text \<open>
  The handlers of the program tell two exception classes apart: \<^verbatim>\<open>except Exception\<close>
  (in \<^verbatim>\<open>search\<close> and \<^verbatim>\<open>run_worker\<close>) and \<^verbatim>\<open>except KeyboardInterrupt\<close> (in
  \<^verbatim>\<open>run_worker\<close> and \<^verbatim>\<open>run_scheduler\<close>). \<open>Exception c\<close> is an instance of
  \<^verbatim>\<open>Exception\<close> whose class is named \<open>c\<close>; \<open>KeyboardInterrupt\<close> derives from
  \<^verbatim>\<open>BaseException\<close> only and is not caught by \<^verbatim>\<open>except Exception\<close>.
  A computation that may raise returns \<open>exn + 'r\<close>, with \<open>Inl\<close> the raised exception.
\<close>

datatype exn = Exception string | KeyboardInterrupt

type_synonym 'r result = "exn + 'r"

definition then_r :: "'r result \<Rightarrow> ('r \<Rightarrow> 's result) \<Rightarrow> 's result" where
  "then_r r f = (case r of Inl e \<Rightarrow> Inl e | Inr v \<Rightarrow> f v)"

text \<open>\<^verbatim>\<open>os.getenv(key, default)\<close> and \<^verbatim>\<open>os.getenv(key)\<close> on the process environment.\<close>

type_synonym environ = "string \<rightharpoonup> string"

definition getenv :: "environ \<Rightarrow> string \<Rightarrow> string \<Rightarrow> string" where
  "getenv e k d = (case e k of None \<Rightarrow> d | Some v \<Rightarrow> v)"

text \<open>\<^verbatim>\<open>s.split(',')\<close>: every comma separates, empty pieces are kept.\<close>

fun split_str :: "char \<Rightarrow> string \<Rightarrow> string list" where
  "split_str sep [] = [[]]"
| "split_str sep (c # cs) =
     (if c = sep then [] # split_str sep cs
      else (case split_str sep cs of
              [] \<Rightarrow> [[c]]
            | p # ps \<Rightarrow> (c # p) # ps))"

text \<open>
  \<^verbatim>\<open>s.lower()\<close> and \<^verbatim>\<open>s.strip()\<close> on the code points below 256, which is what a
  \<open>char\<close> holds: the upper-case letters are A to Z and 192 to 222 without the
  multiplication sign 215; white space is 9 to 13, 28 to 32, 133 and 160.
\<close>

definition lower_char :: "char \<Rightarrow> char" where
  "lower_char c =
     (let n = (of_char c :: nat)
      in if (65 \<le> n \<and> n \<le> 90) \<or> (192 \<le> n \<and> n \<le> 222 \<and> n \<noteq> 215)
         then char_of (n + 32) else c)"

definition lower_str :: "string \<Rightarrow> string" where
  "lower_str s = map lower_char s"

definition is_space :: "char \<Rightarrow> bool" where
  "is_space c =
     (let n = (of_char c :: nat)
      in (9 \<le> n \<and> n \<le> 13) \<or> (28 \<le> n \<and> n \<le> 32) \<or> n = 133 \<or> n = 160)"

definition strip_str :: "string \<Rightarrow> string" where
  "strip_str s = rev (dropWhile is_space (rev (dropWhile is_space s)))"

text \<open>
  \<^verbatim>\<open>float(...)\<close> and \<^verbatim>\<open>int(...)\<close>. The program stores and passes the numbers on and never
  computes with them, so the type \<open>'n\<close> of Python floats is a parameter, and so are the
  conversions: \<open>float_of_str s = None\<close> when \<^verbatim>\<open>float(s)\<close> raises \<^verbatim>\<open>ValueError\<close>.
\<close>

record 'n builtins =
  float_of_str :: "string \<Rightarrow> 'n option"
  float_of_int :: "int \<Rightarrow> 'n"
  int_of_str :: "string \<Rightarrow> int option"

definition py_float :: "'n builtins \<Rightarrow> string \<Rightarrow> 'n result" where
  "py_float B s =
     (case float_of_str B s of None \<Rightarrow> Inl (Exception ''ValueError'') | Some v \<Rightarrow> Inr v)"

definition py_int :: "'n builtins \<Rightarrow> string \<Rightarrow> int result" where
  "py_int B s =
     (case int_of_str B s of None \<Rightarrow> Inl (Exception ''ValueError'') | Some v \<Rightarrow> Inr v)"

text \<open>
  A conversion for concrete inputs: it agrees with \<^verbatim>\<open>float\<close> and \<^verbatim>\<open>int\<close> on non-empty
  strings of ASCII digits and rejects every other string (Python accepts more).
\<close>

fun digits_value :: "nat \<Rightarrow> string \<Rightarrow> nat option" where
  "digits_value acc [] = Some acc"
| "digits_value acc (c # cs) =
     (let n = (of_char c :: nat)
      in if 48 \<le> n \<and> n \<le> 57 then digits_value (10 * acc + (n - 48)) cs else None)"

definition digits :: "string \<Rightarrow> nat option" where
  "digits s = (if s = [] then None else digits_value 0 s)"

definition plain_builtins :: "rat builtins" where
  "plain_builtins =
     \<lparr>float_of_str = (\<lambda>s. map_option of_nat (digits s)),
      float_of_int = of_int,
      int_of_str = (\<lambda>s. map_option int (digits s))\<rparr>"

section \<open>main.py: the application object\<close>

text \<open>
  The keyword arguments of \<^verbatim>\<open>ApartmentSearchInterface.search_apartments\<close>, the
  dictionary \<^verbatim>\<open>self.config\<close>, and the search interface itself. The module
  \<^verbatim>\<open>search_interface\<close> is imported, so a call of the interface is a parameter: a
  function from the keyword arguments to the listings it returns or the exception it
  raises. \<open>'a\<close> is the type of one listing (a Python \<^verbatim>\<open>dict\<close>).
\<close>

record 'n criteria =
  kw_min_rooms :: 'n
  kw_max_rooms :: 'n
  kw_max_rent :: 'n
  kw_min_area :: "'n option"
  kw_districts :: "string list"
  kw_wbs :: bool
  kw_companies :: "string list"

record 'n config =
  max_rent :: 'n
  min_rooms :: 'n
  max_rooms :: 'n
  min_area :: "'n option"
  districts :: "string list"
  wbs :: bool
  companies :: "string list"
  port :: int
  mode :: string

type_synonym ('n, 'a) provider = "'n criteria \<Rightarrow> 'a list result"

text \<open>
  What the file system and the JSON library do, as far as \<^verbatim>\<open>save_results\<close> and
  \<^verbatim>\<open>api_latest\<close> see it. \<open>makedirs\<close> is the outcome of
  \<^verbatim>\<open>os.makedirs('results', exist_ok=True)\<close>; \<open>open_w p\<close> and \<open>open_r p\<close> are the
  exception raised by opening \<open>p\<close> for writing or reading, if any; \<open>dump p xs\<close> is the
  text \<^verbatim>\<open>json.dump\<close> writes to the file \<open>p\<close>, or the exception it raises together with
  the text written before it; \<open>load s\<close> is what \<^verbatim>\<open>json.load\<close> makes of the text \<open>s\<close>.
\<close>

record 'a io =
  makedirs :: "exn option"
  open_w :: "string \<Rightarrow> exn option"
  open_r :: "string \<Rightarrow> exn option"
  dump :: "string \<Rightarrow> 'a list \<Rightarrow> (exn \<times> string) + string"
  load :: "string \<Rightarrow> 'a list result"

type_synonym disk = "string \<rightharpoonup> string"

text \<open>
  The \<^verbatim>\<open>BerlinHousingApp\<close> instance with what it acts on: \<^verbatim>\<open>self.config\<close>, the files
  on disk, and the log of the calls made to the search interface (the keyword arguments
  of each call, oldest first).
\<close>

record 'n app =
  config :: "'n config"
  files :: disk
  calls :: "'n criteria list"

text \<open>\<^verbatim>\<open>load_config\<close>: the dictionary entries are evaluated in the order written.\<close>

definition load_config :: "'n builtins \<Rightarrow> environ \<Rightarrow> 'n config result" where
  "load_config B e =
     then_r (py_float B (getenv e ''MAX_RENT'' ''1200'')) (\<lambda>mr.
     then_r (py_float B (getenv e ''MIN_ROOMS'' ''2'')) (\<lambda>mn.
     then_r (py_float B (getenv e ''MAX_ROOMS'' ''3'')) (\<lambda>mx.
     then_r (if getenv e ''MIN_AREA'' [] \<noteq> []
             then then_r (py_float B (getenv e ''MIN_AREA'' ''0'')) (\<lambda>a. Inr (Some a))
             else Inr None) (\<lambda>ma.
     then_r (py_int B (getenv e ''PORT'' ''8080'')) (\<lambda>p.
     Inr \<lparr>max_rent = mr, min_rooms = mn, max_rooms = mx, min_area = ma,
          districts = split_str CHR '','' (getenv e ''DISTRICTS'' ''Mitte,Friedrichshain''),
          wbs = (lower_str (getenv e ''WBS_REQUIRED'' ''false'') = ''true''),
          companies = split_str CHR '','' (getenv e ''COMPANIES'' ''inberlinwohnen''),
          port = p,
          mode = getenv e ''MODE'' ''web''\<rparr>)))))"

text \<open>The keyword arguments \<^verbatim>\<open>search\<close> builds from \<^verbatim>\<open>self.config\<close> (lines 70 to 78).\<close>

definition criteria_of :: "'n config \<Rightarrow> 'n criteria" where
  "criteria_of c =
     \<lparr>kw_min_rooms = min_rooms c, kw_max_rooms = max_rooms c, kw_max_rent = max_rent c,
      kw_min_area = min_area c, kw_districts = districts c, kw_wbs = wbs c,
      kw_companies = companies c\<rparr>"

text \<open>
  \<^verbatim>\<open>with open(path, 'w') as f: json.dump(results, f, ...)\<close>. Opening truncates the
  file, so after a failed dump the file holds what was written before the exception.
\<close>

definition write_json :: "'a io \<Rightarrow> string \<Rightarrow> 'a list \<Rightarrow> disk \<Rightarrow> unit result \<times> disk" where
  "write_json io path results fs =
     (case open_w io path of
        Some e \<Rightarrow> (Inl e, fs)
      | None \<Rightarrow>
          (case dump io path results of
             Inl (e, written) \<Rightarrow> (Inl e, fs(path \<mapsto> written))
           | Inr s \<Rightarrow> (Inr (), fs(path \<mapsto> s))))"

text \<open>
  \<^verbatim>\<open>save_results\<close>; \<open>now\<close> is \<^verbatim>\<open>datetime.now().strftime('%Y%m%d_%H%M%S')\<close>. The
  time-stamped file is written first, \<^verbatim>\<open>results/latest.json\<close> second.
\<close>

definition save_results :: "'a io \<Rightarrow> string \<Rightarrow> 'a list \<Rightarrow> disk \<Rightarrow> unit result \<times> disk" where
  "save_results io now results fs =
     (case makedirs io of
        Some e \<Rightarrow> (Inl e, fs)
      | None \<Rightarrow>
          (case write_json io (''results/apartments_'' @ now @ ''.json'') results fs of
             (Inl e, fs1) \<Rightarrow> (Inl e, fs1)
           | (Inr u, fs1) \<Rightarrow> write_json io ''results/latest.json'' results fs1))"

text \<open>
  \<^verbatim>\<open>search\<close>. The handler \<^verbatim>\<open>except Exception\<close> turns an \<^verbatim>\<open>Exception\<close> raised by the
  interface or by \<^verbatim>\<open>save_results\<close> into the empty list; a \<^verbatim>\<open>KeyboardInterrupt\<close>
  passes through it. The calls of the logger are taken to return without effect, here
  and in every other function.
\<close>

definition on_error :: "exn \<Rightarrow> 'a list result" where
  "on_error e = (case e of Exception c \<Rightarrow> Inr [] | KeyboardInterrupt \<Rightarrow> Inl KeyboardInterrupt)"

definition search ::
  "('n, 'a) provider \<Rightarrow> 'a io \<Rightarrow> string \<Rightarrow> 'n app \<Rightarrow> 'a list result \<times> 'n app" where
  "search iface io now app =
     (let kw = criteria_of (config app);
          app1 = app\<lparr>calls := calls app @ [kw]\<rparr>
      in case iface kw of
           Inl e \<Rightarrow> (on_error e, app1)
         | Inr results \<Rightarrow>
             (case save_results io now results (files app1) of
                (Inl e, fs) \<Rightarrow> (on_error e, app1\<lparr>files := fs\<rparr>)
              | (Inr u, fs) \<Rightarrow> (Inr results, app1\<lparr>files := fs\<rparr>)))"



text \<open>
  \<^verbatim>\<open>api_latest\<close>: a \<^verbatim>\<open>FileNotFoundError\<close> raised in the \<^verbatim>\<open>try\<close> block gives the empty
  list, every other exception leaves the function.
\<close>

definition api_latest :: "'a io \<Rightarrow> disk \<Rightarrow> 'a list result" where
  "api_latest io fs =
     (let body =
        (case fs ''results/latest.json'' of
           None \<Rightarrow> Inl (Exception ''FileNotFoundError'')
         | Some s \<Rightarrow>
             (case open_r io ''results/latest.json'' of
                Some e \<Rightarrow> Inl e
              | None \<Rightarrow> load io s))
      in case body of
           Inl e \<Rightarrow> (if e = Exception ''FileNotFoundError'' then Inr [] else Inl e)
         | Inr results \<Rightarrow> Inr results)"

text \<open>
  \<^verbatim>\<open>run_once\<close>: what it prints is the number of results and the first five of them.
  \<open>exit_status\<close> is the status with which the interpreter ends the process: 0 when
  \<^verbatim>\<open>main\<close> returns, 1 after an uncaught \<^verbatim>\<open>Exception\<close>, 130 (the interrupt signal)
  after an uncaught \<^verbatim>\<open>KeyboardInterrupt\<close>. \<open>once_process\<close> is \<^verbatim>\<open>main\<close> from the construction of the
  application on (line 282), in mode \<^verbatim>\<open>once\<close>, on the disk \<open>fs\<close>.
\<close>

definition run_once ::
  "('n, 'a) provider \<Rightarrow> 'a io \<Rightarrow> string \<Rightarrow> 'n app \<Rightarrow> (nat \<times> 'a list) result \<times> 'n app" where
  "run_once iface io now app =
     (case search iface io now app of
        (Inl e, app1) \<Rightarrow> (Inl e, app1)
      | (Inr results, app1) \<Rightarrow> (Inr (length results, take 5 results), app1))"

definition exit_status :: "'r result \<Rightarrow> nat" where
  "exit_status r =
     (case r of
        Inr v \<Rightarrow> 0
      | Inl (Exception c) \<Rightarrow> 1
      | Inl KeyboardInterrupt \<Rightarrow> 130)"

definition once_process ::
  "'n builtins \<Rightarrow> ('n, 'a) provider \<Rightarrow> 'a io \<Rightarrow> string \<Rightarrow> environ \<Rightarrow> disk \<Rightarrow> nat" where
  "once_process B iface io now e fs =
     (case load_config B e of
        Inl ex \<Rightarrow> exit_status (Inl ex :: unit result)
      | Inr c \<Rightarrow> exit_status (fst (run_once iface io now \<lparr>config = c, files = fs, calls = []\<rparr>)))"







section \<open>run.py: the command-line program\<close>

text \<open>
  \<^verbatim>\<open>SearchParameters\<close> comes from the imported module \<^verbatim>\<open>scraper\<close>; it is taken as the
  plain object of the keyword arguments \<^verbatim>\<open>load_search_params\<close> gives it.
\<close>

record 'n search_parameters =
  sp_min_rooms :: 'n
  sp_max_rooms :: 'n
  sp_max_rent :: 'n
  sp_min_area :: "'n option"
  sp_districts :: "string list"
  sp_wbs_required :: bool
  sp_wbs_type :: "string option"
  sp_companies :: "string list"

text \<open>
  \<^verbatim>\<open>float(os.getenv(key, 2))\<close>: the default is a number, not a string, so an unset
  variable gives \<^verbatim>\<open>float(2)\<close>.
\<close>

definition float_env :: "'n builtins \<Rightarrow> environ \<Rightarrow> string \<Rightarrow> int \<Rightarrow> 'n result" where
  "float_env B e k d = (case e k of None \<Rightarrow> Inr (float_of_int B d) | Some v \<Rightarrow> py_float B v)"

definition load_search_params :: "'n builtins \<Rightarrow> environ \<Rightarrow> 'n search_parameters result" where
  "load_search_params B e =
     (let districts = split_str CHR '','' (getenv e ''DISTRICTS'' ''Mitte,Friedrichshain'');
          companies = split_str CHR '','' (getenv e ''COMPANIES'' ''inberlinwohnen'')
      in then_r (float_env B e ''MIN_ROOMS'' 2) (\<lambda>mn.
         then_r (float_env B e ''MAX_ROOMS'' 3) (\<lambda>mx.
         then_r (float_env B e ''MAX_RENT'' 1200) (\<lambda>mr.
         then_r (if getenv e ''MIN_AREA'' [] \<noteq> []
                 then then_r (float_env B e ''MIN_AREA'' 0) (\<lambda>a. Inr (Some a))
                 else Inr None) (\<lambda>ma.
         Inr \<lparr>sp_min_rooms = mn, sp_max_rooms = mx, sp_max_rent = mr, sp_min_area = ma,
              sp_districts = map strip_str districts,
              sp_wbs_required = (lower_str (getenv e ''WBS_REQUIRED'' ''false'') = ''true''),
              sp_wbs_type = e ''WBS_TYPE'',
              sp_companies = map strip_str companies\<rparr>)))))"

text \<open>The keyword arguments \<^verbatim>\<open>search_apartments\<close> builds from the parameters (lines 66 to 74).\<close>

definition kwargs_of :: "'n search_parameters \<Rightarrow> 'n criteria" where
  "kwargs_of p =
     \<lparr>kw_min_rooms = sp_min_rooms p, kw_max_rooms = sp_max_rooms p,
      kw_max_rent = sp_max_rent p, kw_min_area = sp_min_area p,
      kw_districts = sp_districts p, kw_wbs = sp_wbs_required p,
      kw_companies = sp_companies p\<rparr>"

subsection \<open>The report template and \<^verbatim>\<open>str.format\<close>\<close>

text \<open>
  \<^verbatim>\<open>generate_html_report\<close> ends with \<^verbatim>\<open>html.format(count=..., timestamp=...,
  apartments_html=...)\<close>, with keyword arguments only. \<open>scan\<close> is the position of
  \<^verbatim>\<open>str.format\<close> in the template: in literal text (where a doubled brace stands for one brace), in the name of a
  replacement field (or inside an index \<^verbatim>\<open>[...]\<close> of the name), after the \<^verbatim>\<open>!\<close> of a
  conversion, or in the format specification at some depth of nested braces. Every
  malformed template raises \<^verbatim>\<open>ValueError\<close>.
\<close>

datatype scan =
    Text
  | Name string
  | Index string
  | Bang string
  | Conv string char
  | Spec nat string "char option" string

text \<open>
  The value of a replacement field. The first part of the name, up to a dot or a
  bracket, selects the argument: an empty or all-digit name is a position, and there
  are no positional arguments (\<^verbatim>\<open>IndexError\<close>); any other name is a keyword, and a
  keyword that was not passed raises \<^verbatim>\<open>KeyError\<close>. What an attribute, an index, a
  conversion or a format specification then do to the value is the parameter \<open>fin\<close>.
\<close>

definition is_digit :: "char \<Rightarrow> bool" where
  "is_digit c = (let n = (of_char c :: nat) in 48 \<le> n \<and> n \<le> 57)"

definition field_value ::
  "(string \<Rightarrow> char option \<Rightarrow> string \<Rightarrow> string \<Rightarrow> string result) \<Rightarrow> (string \<times> string) list
     \<Rightarrow> string \<Rightarrow> char option \<Rightarrow> string \<Rightarrow> string result" where
  "field_value fin kwargs name conv spec =
     (let arg = takeWhile (\<lambda>c. c \<noteq> CHR ''.'' \<and> c \<noteq> CHR ''['') name
      in if list_all is_digit arg then Inl (Exception ''IndexError'')
         else (case map_of kwargs arg of
                 None \<Rightarrow> Inl (Exception ''KeyError'')
               | Some v \<Rightarrow>
                   (if name = arg \<and> conv = None \<and> spec = [] then Inr v
                    else fin name conv spec v)))"

definition emit :: "string \<Rightarrow> string result \<Rightarrow> string result" where
  "emit s r = (case r of Inl e \<Rightarrow> Inl e | Inr out \<Rightarrow> Inr (s @ out))"

fun py_format ::
  "(string \<Rightarrow> char option \<Rightarrow> string \<Rightarrow> string result) \<Rightarrow> scan \<Rightarrow> string \<Rightarrow> string result" where
  "py_format fv Text [] = Inr []"
| "py_format fv st [] = Inl (Exception ''ValueError'')"
| "py_format fv Text (c # cs) =
     (if c = CHR ''{'' then
        (case cs of
           [] \<Rightarrow> Inl (Exception ''ValueError'')
         | d # ds \<Rightarrow>
             (if d = CHR ''{'' then emit ''{'' (py_format fv Text ds)
              else py_format fv (Name []) cs))
      else if c = CHR ''}'' then
        (case cs of
           [] \<Rightarrow> Inl (Exception ''ValueError'')
         | d # ds \<Rightarrow>
             (if d = CHR ''}'' then emit ''}'' (py_format fv Text ds)
              else Inl (Exception ''ValueError'')))
      else emit [c] (py_format fv Text cs))"
| "py_format fv (Name n) (c # cs) =
     (if c = CHR ''{'' then Inl (Exception ''ValueError'')
      else if c = CHR ''['' then py_format fv (Index (n @ [c])) cs
      else if c = CHR ''}'' then
        (case fv n None [] of Inl e \<Rightarrow> Inl e | Inr v \<Rightarrow> emit v (py_format fv Text cs))
      else if c = CHR '':'' then py_format fv (Spec 1 n None []) cs
      else if c = CHR ''!'' then py_format fv (Bang n) cs
      else py_format fv (Name (n @ [c])) cs)"
| "py_format fv (Index n) (c # cs) =
     (if c = CHR '']'' then py_format fv (Name (n @ [c])) cs
      else py_format fv (Index (n @ [c])) cs)"
| "py_format fv (Bang n) (c # cs) = py_format fv (Conv n c) cs"
| "py_format fv (Conv n k) (c # cs) =
     (if c = CHR ''}'' then
        (case fv n (Some k) [] of Inl e \<Rightarrow> Inl e | Inr v \<Rightarrow> emit v (py_format fv Text cs))
      else if c = CHR '':'' then py_format fv (Spec 1 n (Some k) []) cs
      else Inl (Exception ''ValueError''))"
| "py_format fv (Spec d n k sp) (c # cs) =
     (if c = CHR ''{'' then py_format fv (Spec (Suc d) n k (sp @ [c])) cs
      else if c = CHR ''}'' then
        (if d = 1 then
           (case fv n k sp of Inl e \<Rightarrow> Inl e | Inr v \<Rightarrow> emit v (py_format fv Text cs))
         else py_format fv (Spec (d - 1) n k (sp @ [c])) cs)
      else py_format fv (Spec d n k (sp @ [c])) cs)"

text \<open>
  The template of \<^verbatim>\<open>generate_html_report\<close> (lines 106 to 149), line by line up to
  its first style rule; \<open>rest\<close> stands for the text after that rule. The braces of the
  style rules are single, those of the script at the end are doubled.
\<close>

definition html_head :: "string list" where
  \<open>html_head =
     ['''',
      ''<!DOCTYPE html>'',
      ''<html lang="de">'',
      ''<head>'',
      ''    <meta charset="UTF-8">'',
      ''    <meta name="viewport" content="width=device-width, initial-scale=1.0">'',
      ''    <title>Berlin Apartment Search Results</title>'',
      ''    <style>'',
      ''        body { font-family: Arial, sans-serif; margin: 20px; background: #f5f5f5; }'']\<close>

definition html_template :: "string \<Rightarrow> string" where
  "html_template rest = concat (map (\<lambda>l. l @ [CHR 0x0A]) html_head) @ rest"

text \<open>\<^verbatim>\<open>str(n)\<close> for a length.\<close>

fun decimal :: "nat \<Rightarrow> string" where
  "decimal n =
     (if n < 10 then [char_of (48 + n)]
      else decimal (n div 10) @ [char_of (48 + n mod 10)])"

text \<open>
  What the report needs from outside: \<open>block a\<close> is the text the loop body (lines 153
  to 168) adds for the listing \<open>a\<close>, or the exception its \<^verbatim>\<open>apt.get\<close> calls raise;
  \<open>finish\<close> is the parameter of \<open>field_value\<close>; \<open>rest\<close> is the remainder of the
  template.
\<close>

record 'a report =
  block :: "'a \<Rightarrow> string result"
  finish :: "string \<Rightarrow> char option \<Rightarrow> string \<Rightarrow> string \<Rightarrow> string result"
  rest :: string

fun blocks :: "'a report \<Rightarrow> 'a list \<Rightarrow> string result" where
  "blocks R [] = Inr []"
| "blocks R (a # as) =
     then_r (block R a) (\<lambda>b. then_r (blocks R as) (\<lambda>bs. Inr (b @ bs)))"

text \<open>
  \<^verbatim>\<open>generate_html_report\<close>; \<open>now\<close> is
  \<^verbatim>\<open>datetime.now().strftime('%Y-%m-%d %H:%M:%S')\<close>.
\<close>

definition generate_html_report :: "'a report \<Rightarrow> string \<Rightarrow> 'a list \<Rightarrow> string result" where
  "generate_html_report R now apartments =
     then_r (blocks R apartments) (\<lambda>apartments_html.
       py_format
         (field_value (finish R)
            [(''count'', decimal (length apartments)),
             (''timestamp'', now),
             (''apartments_html'', apartments_html)])
         Text (html_template (rest R)))"

subsection \<open>One search cycle\<close>

text \<open>
  The state of the process of run.py: the environment variables, the files on disk, the
  log of the calls made to the search interface, and the log of the calls of
  \<^verbatim>\<open>NotificationManager.notify\<close> (the list passed by each call, oldest first).
\<close>

record ('n, 'a) world =
  env :: environ
  w_files :: disk
  w_calls :: "'n criteria list"
  notified :: "'a list list"

text \<open>
  What the outside does during one call of \<^verbatim>\<open>search_apartments\<close>: the search
  interface, the file system and JSON library, the two readings of the clock (for the
  file names and inside the report), \<open>c_write p s\<close> for \<^verbatim>\<open>f.write(html_content)\<close> on
  the file \<open>p\<close> (the exception raised and the text written before it, if any),
  \<open>c_manager\<close> for the constructor \<^verbatim>\<open>NotificationManager()\<close> and \<open>c_notify\<close> for its
  method \<^verbatim>\<open>notify\<close> (the module \<^verbatim>\<open>notifications\<close> is imported), and the argument
  \<^verbatim>\<open>notify\<close> of the call.
\<close>

record ('n, 'a) cycle =
  c_provider :: "('n, 'a) provider"
  c_io :: "'a io"
  c_now :: string
  c_report_now :: string
  c_write :: "string \<Rightarrow> string \<Rightarrow> (exn \<times> string) option"
  c_manager :: "exn option"
  c_notify :: "'a list \<Rightarrow> exn option"
  c_flag :: bool

text \<open>Lines 96 to 99 of \<^verbatim>\<open>search_apartments\<close>, reached after both files are written.\<close>

definition send_notifications ::
  "('n, 'a) cycle \<Rightarrow> 'a list \<Rightarrow> ('n, 'a) world \<Rightarrow> 'a list result \<times> ('n, 'a) world" where
  "send_notifications c results w =
     (if c_flag c \<and> lower_str (getenv (env w) ''ENABLE_NOTIFICATIONS'' ''false'') = ''true''
      then (case c_manager c of
              Some e \<Rightarrow> (Inl e, w)
            | None \<Rightarrow>
                (let w1 = w\<lparr>notified := notified w @ [results]\<rparr>
                 in case c_notify c results of
                      Some e \<Rightarrow> (Inl e, w1)
                    | None \<Rightarrow> (Inr results, w1)))
      else (Inr results, w))"

text \<open>
  \<^verbatim>\<open>search_apartments\<close> of run.py. No statement of it is inside a \<^verbatim>\<open>try\<close>, so the
  first exception ends the call; what was logged and written before it stays.
\<close>

definition search_apartments ::
  "'n builtins \<Rightarrow> 'a report \<Rightarrow> ('n, 'a) cycle \<Rightarrow> ('n, 'a) world
     \<Rightarrow> 'a list result \<times> ('n, 'a) world" where
  "search_apartments B R c w =
     (case load_search_params B (env w) of
        Inl e \<Rightarrow> (Inl e, w)
      | Inr params \<Rightarrow>
          (let w1 = w\<lparr>w_calls := w_calls w @ [kwargs_of params]\<rparr>
           in case c_provider c (kwargs_of params) of
                Inl e \<Rightarrow> (Inl e, w1)
              | Inr results \<Rightarrow>
                  (case makedirs (c_io c) of
                     Some e \<Rightarrow> (Inl e, w1)
                   | None \<Rightarrow>
                       (case write_json (c_io c) (''results/apartments_'' @ c_now c @ ''.json'')
                               results (w_files w1) of
                          (Inl e, fs) \<Rightarrow> (Inl e, w1\<lparr>w_files := fs\<rparr>)
                        | (Inr u, fs) \<Rightarrow>
                            (let w2 = w1\<lparr>w_files := fs\<rparr>;
                                 html_file = ''results/apartments_'' @ c_now c @ ''.html''
                             in case generate_html_report R (c_report_now c) results of
                                  Inl e \<Rightarrow> (Inl e, w2)
                                | Inr html_content \<Rightarrow>
                                    (case open_w (c_io c) html_file of
                                       Some e \<Rightarrow> (Inl e, w2)
                                     | None \<Rightarrow>
                                         (case c_write c html_file html_content of
                                            Some (e, written) \<Rightarrow>
                                              (Inl e, w2\<lparr>w_files := (w_files w2)(html_file \<mapsto> written)\<rparr>)
                                          | None \<Rightarrow>
                                              send_notifications c results
                                                (w2\<lparr>w_files :=
                                                      (w_files w2)(html_file \<mapsto> html_content)\<rparr>))))))))"



section \<open>The deduplicator of the specification\<close>

text \<open>
  Modelled from the spec: the data model of section 3 (Listing, ResultSet, SeenIndex).
  Neither main.py nor run.py has a listing identity or an index of seen listings. The
  criteria of a result set are of any type \<open>'c\<close>; time stamps are natural numbers.
\<close>

record 'n listing =
  identity :: string
  title :: string
  district :: string
  availableFrom :: string
  rooms :: 'n
  area :: 'n
  warmRent :: 'n
  eligibilityRequired :: bool
  eligibilityType :: "string option"
  sourceUrl :: string

record ('c, 'n) result_set =
  capturedAt :: nat
  rs_criteria :: 'c
  listings :: "'n listing list"

type_synonym seen_index = "string \<rightharpoonup> nat"

text \<open>
  Modelled from the spec: \<^verbatim>\<open>Deduplicator.filterNew\<close> of section 4.2, which no source
  file has. For each listing of \<^verbatim>\<open>incoming.listings\<close> in order: if its identity is not
  in \<^verbatim>\<open>previous\<close> it is included in \<^verbatim>\<open>newListings\<close> and the pair of identity and
  \<^verbatim>\<open>capturedAt\<close> is added to the updated index; otherwise only the stamp of the identity
  is updated. \<open>filter_loop\<close> is that loop, with the index built so far.
\<close>

fun filter_loop ::
  "nat \<Rightarrow> seen_index \<Rightarrow> 'n listing list \<Rightarrow> seen_index \<Rightarrow> 'n listing list \<times> seen_index" where
  "filter_loop stamp previous [] index = ([], index)"
| "filter_loop stamp previous (l # ls) index =
     (case filter_loop stamp previous ls (index(identity l \<mapsto> stamp)) of
        (new, updated) \<Rightarrow>
          (if previous (identity l) = None then (l # new, updated) else (new, updated)))"

definition filterNew ::
  "seen_index \<Rightarrow> ('c, 'n) result_set \<Rightarrow> 'n listing list \<times> seen_index" where
  "filterNew previous incoming =
     filter_loop (capturedAt incoming) previous (listings incoming) previous"

section \<open>Concrete inputs\<close>

text \<open>
  A file system on which every operation succeeds, with a codec for listings that are
  plain strings: each listing is written followed by a semicolon.
\<close>

definition lines_io :: "string io" where
  "lines_io =
     \<lparr>makedirs = None, open_w = (\<lambda>p. None), open_r = (\<lambda>p. None),
      dump = (\<lambda>p xs. Inr (concat (map (\<lambda>x. x @ '';'') xs))),
      load = (\<lambda>s. Inr (butlast (split_str CHR '';'' s)))\<rparr>"

text \<open>The configuration \<^verbatim>\<open>load_config\<close> builds when no variable is set.\<close>

definition default_config :: "rat config" where
  "default_config =
     \<lparr>max_rent = 1200, min_rooms = 2, max_rooms = 3, min_area = None,
      districts = [''Mitte'', ''Friedrichshain''], wbs = False,
      companies = [''inberlinwohnen''], port = 8080, mode = ''web''\<rparr>"

definition fresh_app :: "rat app" where
  "fresh_app = \<lparr>config = default_config, files = Map.empty, calls = []\<rparr>"

text \<open>A search interface that raises, and one that finds two listings.\<close>

definition failing :: "exn \<Rightarrow> (rat, string) provider" where
  "failing e = (\<lambda>kw. Inl e)"

definition finding :: "string list \<Rightarrow> (rat, string) provider" where
  "finding xs = (\<lambda>kw. Inr xs)"





text \<open>Three listings with the identities a, b and c, and an index that has seen a and b.\<close>

definition item :: "string \<Rightarrow> rat listing" where
  "item i =
     \<lparr>identity = i, title = ''Wohnung'', district = ''Mitte'', availableFrom = ''sofort'',
      rooms = 2, area = 60, warmRent = 900, eligibilityRequired = False,
      eligibilityType = None, sourceUrl = i\<rparr>"

definition seen_ab :: seen_index where
  "seen_ab = [''a'' \<mapsto> 1, ''b'' \<mapsto> 1]"

definition incoming_abc :: "(unit, rat) result_set" where
  "incoming_abc = \<lparr>capturedAt = 2, rs_criteria = (), listings = [item ''a'', item ''b'', item ''c'']\<rparr>"

text \<open>A file system on which no file can be opened for writing.\<close>

definition readonly_io :: "string io" where
  "readonly_io = lines_io\<lparr>open_w := (\<lambda>p. Some (Exception ''PermissionError''))\<rparr>"

text \<open>The environment of a process started in mode \<^verbatim>\<open>once\<close>.\<close>

definition once_env :: environ where
  "once_env = [''MODE'' \<mapsto> ''once'']"






definition full_disk_io :: "string io" where
  "full_disk_io =
     lines_io\<lparr>dump := (\<lambda>p xs. if p = ''results/latest.json''
                               then Inl (Exception ''OSError'', [])
                               else dump lines_io p xs),
               load := (\<lambda>s. if s = [] then Inl (Exception ''JSONDecodeError'')
                             else load lines_io s)\<rparr>"

section \<open>Properties of main.py\<close>

subsection \<open>What \<^verbatim>\<open>search\<close> does with exceptions\<close>

lemma load_once: "load_config plain_builtins once_env = Inr (default_config\<lparr>mode := ''once''\<rparr>)"
  by (simp add: load_config_def plain_builtins_def default_config_def getenv_def then_r_def
        py_float_def py_int_def digits_def lower_str_def lower_char_def once_env_def)

lemma search_Exception:
  "iface (criteria_of (config app)) = Inl (Exception c) \<Longrightarrow>
   search iface io now app = (Inr [], app\<lparr>calls := calls app @ [criteria_of (config app)]\<rparr>)"
  by (simp add: search_def on_error_def Let_def)

lemma search_Inl:
  "fst (search iface io now app) = Inl e \<Longrightarrow> e = KeyboardInterrupt"
  by (auto simp: search_def on_error_def Let_def split: sum.splits exn.splits prod.splits)



text \<open>
  C10, as stated, fails: \<^verbatim>\<open>search\<close> does propagate an exception to its caller. A
  \<^verbatim>\<open>KeyboardInterrupt\<close> that arrives during the call of the search interface is not an
  \<^verbatim>\<open>Exception\<close>, so the handler of \<^verbatim>\<open>search\<close> lets it through; \<^verbatim>\<open>run_worker\<close> has
  its own \<^verbatim>\<open>except KeyboardInterrupt\<close> around the call for that reason.
\<close>

theorem search_propagates_interrupt_counterexample:
  "fst (search (failing KeyboardInterrupt) lines_io ''20240101_090000'' fresh_app)
     = Inl KeyboardInterrupt"
  by (simp add: search_def failing_def on_error_def Let_def)

text \<open>
  C10, amended: \<^verbatim>\<open>search\<close> never propagates an instance of \<^verbatim>\<open>Exception\<close>. Whatever
  the search interface and the persistence of the results do, the only exception that
  leaves \<^verbatim>\<open>search\<close> is \<^verbatim>\<open>KeyboardInterrupt\<close>; an \<^verbatim>\<open>Exception\<close> raised by the interface
  or by \<^verbatim>\<open>save_results\<close> is caught and the empty list is returned, as after a search
  that found nothing; a \<^verbatim>\<open>KeyboardInterrupt\<close> raised by the interface is propagated.
\<close>

theorem search_catches_Exception:
  "(\<forall>e. fst (search iface io now app) = Inl e \<longrightarrow> e = KeyboardInterrupt) \<and>
   (\<forall>c. iface (criteria_of (config app)) = Inl (Exception c)
        \<longrightarrow> fst (search iface io now app) = Inr []) \<and>
   (\<forall>c rs. iface (criteria_of (config app)) = Inr rs \<and>
           fst (save_results io now rs (files app)) = Inl (Exception c)
        \<longrightarrow> fst (search iface io now app) = Inr []) \<and>
   (iface (criteria_of (config app)) = Inl KeyboardInterrupt
        \<longrightarrow> fst (search iface io now app) = Inl KeyboardInterrupt)"
proof (intro conjI allI impI)
  fix e assume "fst (search iface io now app) = Inl e"
  then show "e = KeyboardInterrupt" by (rule search_Inl)
next
  fix c assume "iface (criteria_of (config app)) = Inl (Exception c)"
  then show "fst (search iface io now app) = Inr []" by (simp add: search_Exception)
next
  fix c rs
  assume "iface (criteria_of (config app)) = Inr rs \<and>
          fst (save_results io now rs (files app)) = Inl (Exception c)"
  then show "fst (search iface io now app) = Inr []"
    by (auto simp: search_def on_error_def Let_def split: prod.splits sum.splits)
next
  assume "iface (criteria_of (config app)) = Inl KeyboardInterrupt"
  then show "fst (search iface io now app) = Inl KeyboardInterrupt"
    by (simp add: search_def on_error_def Let_def)
qed

theorem search_catches_Exception_witness:
  "failing (Exception ''FetchError'') (criteria_of (config fresh_app))
     = Inl (Exception ''FetchError'') \<and>
   fst (search (failing (Exception ''FetchError'')) lines_io ''20240101_090000'' fresh_app)
     = Inr [] \<and>
   finding [''a''] (criteria_of (config fresh_app)) = Inr [''a''] \<and>
   fst (save_results readonly_io ''20240101_090000'' [''a''] (files fresh_app))
     = Inl (Exception ''PermissionError'') \<and>
   fst (search (finding [''a'']) readonly_io ''20240101_090000'' fresh_app) = Inr [] \<and>
   failing KeyboardInterrupt (criteria_of (config fresh_app)) = Inl KeyboardInterrupt \<and>
   fst (search (failing KeyboardInterrupt) readonly_io ''20240101_090000'' fresh_app)
     = Inl KeyboardInterrupt"
  using search_catches_Exception
          [of "failing (Exception ''FetchError'')" lines_io "''20240101_090000''" fresh_app]
        search_catches_Exception
          [of "finding [''a'']" readonly_io "''20240101_090000''" fresh_app]
        search_catches_Exception
          [of "failing KeyboardInterrupt" readonly_io "''20240101_090000''" fresh_app]
  by (simp add: failing_def finding_def save_results_def write_json_def readonly_io_def
                lines_io_def)

subsection \<open>Mode \<^verbatim>\<open>once\<close>\<close>

text \<open>
  C6, as stated, fails: in mode \<^verbatim>\<open>once\<close>, with a search interface that raises
  \<^verbatim>\<open>FetchError\<close>, the process completes with status 0.
\<close>

theorem once_fetch_error_counterexample:
  "once_process plain_builtins (failing (Exception ''FetchError'')) lines_io
     ''20240101_090000'' once_env Map.empty = 0"
  by (simp add: once_process_def load_once run_once_def search_Exception failing_def
        exit_status_def)

text \<open>
  C6, amended: in mode \<^verbatim>\<open>once\<close>, if the fetch raises a \<^verbatim>\<open>FetchError\<close> or a time-out
  (any instance of \<^verbatim>\<open>Exception\<close>), \<^verbatim>\<open>search\<close> catches it, \<^verbatim>\<open>run_once\<close> reports zero
  apartments, and the process completes with status 0.
\<close>

theorem once_fetch_error_status:
  "load_config B e = Inr c \<Longrightarrow> iface (criteria_of c) = Inl (Exception x) \<Longrightarrow>
   once_process B iface io now e fs = 0 \<and>
   fst (run_once iface io now \<lparr>config = c, files = fs, calls = []\<rparr>) = Inr (0, [])"
  by (simp add: once_process_def run_once_def search_Exception exit_status_def)

theorem once_fetch_error_status_witness:
  "load_config plain_builtins once_env = Inr (default_config\<lparr>mode := ''once''\<rparr>) \<and>
   failing (Exception ''Timeout'') (criteria_of (default_config\<lparr>mode := ''once''\<rparr>))
     = Inl (Exception ''Timeout'') \<and>
   once_process plain_builtins (failing (Exception ''Timeout'')) lines_io
     ''20240101_090000'' once_env Map.empty = 0"
  using once_fetch_error_status
          [of plain_builtins once_env "default_config\<lparr>mode := ''once''\<rparr>"
              "failing (Exception ''Timeout'')" "''Timeout''" lines_io "''20240101_090000''"
              Map.empty]
  by (simp add: load_once failing_def)

subsection \<open>The request \<^verbatim>\<open>/api/search\<close>\<close>





subsection \<open>Saving and reading back the latest results\<close>

text \<open>
  C8, as stated, fails: the latest file does not always reflect the most recent
  completed save. A save of the listings a and b completes. A later save of the listing
  c writes its time-stamped file, and then the disk runs full while
  \<^verbatim>\<open>results/latest.json\<close> is written: \<^verbatim>\<open>save_results\<close> overwrites that file in place,
  so it is left empty, and \<^verbatim>\<open>api_latest\<close> raises instead of returning a and b.
\<close>

theorem latest_lost_counterexample:
  "fst (save_results lines_io ''20240101_090000'' [''a'', ''b''] Map.empty) = Inr () \<and>
   fst (save_results full_disk_io ''20240101_110000'' [''c'']
          (snd (save_results lines_io ''20240101_090000'' [''a'', ''b''] Map.empty)))
     = Inl (Exception ''OSError'') \<and>
   api_latest full_disk_io
     (snd (save_results full_disk_io ''20240101_110000'' [''c'']
             (snd (save_results lines_io ''20240101_090000'' [''a'', ''b''] Map.empty))))
     = Inl (Exception ''JSONDecodeError'')"
  by (simp add: save_results_def write_json_def api_latest_def lines_io_def full_disk_io_def
        Let_def)

text \<open>
  C8, amended: for every list of results and whatever was on disk before, when
  \<^verbatim>\<open>save_results\<close> has completed on the list, \<^verbatim>\<open>results/latest.json\<close> holds the text
  \<^verbatim>\<open>json.dump\<close> wrote for it, and \<^verbatim>\<open>api_latest\<close> then returns the list provided the
  file opens for reading and \<^verbatim>\<open>json.load\<close> makes the list of that text again. The file
  is overwritten in place: a save that fails while the latest file is written, after
  its time-stamped file, leaves in the latest file the text written before the failure.
\<close>

theorem latest_after_save:
  "(\<forall>u fs'. save_results io now rs fs = (Inr u, fs')
        \<longrightarrow> (\<exists>s. dump io ''results/latest.json'' rs = Inr s \<and>
                 fs' ''results/latest.json'' = Some s \<and>
                 (open_r rd ''results/latest.json'' = None \<and> load rd s = Inr rs
                    \<longrightarrow> api_latest rd fs' = Inr rs))) \<and>
   (\<forall>s1 e part.
      makedirs io = None \<and>
      open_w io (''results/apartments_'' @ now @ ''.json'') = None \<and>
      dump io (''results/apartments_'' @ now @ ''.json'') rs = Inr s1 \<and>
      open_w io ''results/latest.json'' = None \<and>
      dump io ''results/latest.json'' rs = Inl (e, part)
        \<longrightarrow> save_results io now rs fs
              = (Inl e, fs(''results/apartments_'' @ now @ ''.json'' \<mapsto> s1,
                           ''results/latest.json'' \<mapsto> part)))"
proof (intro conjI allI impI)
  fix u fs'
  assume a: "save_results io now rs fs = (Inr u, fs')"
  then obtain s where s: "dump io ''results/latest.json'' rs = Inr s"
    and f: "fs' ''results/latest.json'' = Some s"
    by (auto simp: save_results_def write_json_def
             split: option.splits sum.splits prod.splits)
  have "open_r rd ''results/latest.json'' = None \<and> load rd s = Inr rs
          \<longrightarrow> api_latest rd fs' = Inr rs"
    using f by (simp add: api_latest_def Let_def)
  with s f show "\<exists>s. dump io ''results/latest.json'' rs = Inr s \<and>
                 fs' ''results/latest.json'' = Some s \<and>
                 (open_r rd ''results/latest.json'' = None \<and> load rd s = Inr rs
                    \<longrightarrow> api_latest rd fs' = Inr rs)"
    by blast
next
  fix s1 e part
  assume "makedirs io = None \<and>
      open_w io (''results/apartments_'' @ now @ ''.json'') = None \<and>
      dump io (''results/apartments_'' @ now @ ''.json'') rs = Inr s1 \<and>
      open_w io ''results/latest.json'' = None \<and>
      dump io ''results/latest.json'' rs = Inl (e, part)"
  then show "save_results io now rs fs
              = (Inl e, fs(''results/apartments_'' @ now @ ''.json'' \<mapsto> s1,
                           ''results/latest.json'' \<mapsto> part))"
    by (simp add: save_results_def write_json_def)
qed

theorem latest_after_save_witness:
  "save_results lines_io ''20240101_090000'' [''a'', ''b''] Map.empty
     = (Inr (), [''results/apartments_20240101_090000.json'' \<mapsto> ''a;b;'',
                 ''results/latest.json'' \<mapsto> ''a;b;'']) \<and>
   dump lines_io ''results/latest.json'' [''a'', ''b''] = Inr ''a;b;'' \<and>
   open_r full_disk_io ''results/latest.json'' = None \<and>
   load full_disk_io ''a;b;'' = Inr [''a'', ''b''] \<and>
   api_latest full_disk_io
     [''results/apartments_20240101_090000.json'' \<mapsto> ''a;b;'',
      ''results/latest.json'' \<mapsto> ''a;b;''] = Inr [''a'', ''b''] \<and>
   makedirs full_disk_io = None \<and>
   open_w full_disk_io ''results/apartments_20240101_110000.json'' = None \<and>
   dump full_disk_io ''results/apartments_20240101_110000.json'' [''c''] = Inr ''c;'' \<and>
   open_w full_disk_io ''results/latest.json'' = None \<and>
   dump full_disk_io ''results/latest.json'' [''c''] = Inl (Exception ''OSError'', []) \<and>
   save_results full_disk_io ''20240101_110000'' [''c'']
       [''results/latest.json'' \<mapsto> ''a;b;'']
     = (Inl (Exception ''OSError''),
        [''results/latest.json'' \<mapsto> ''a;b;'',
         ''results/apartments_20240101_110000.json'' \<mapsto> ''c;'',
         ''results/latest.json'' \<mapsto> []])"
proof -
  have a: "save_results lines_io ''20240101_090000'' [''a'', ''b''] Map.empty
             = (Inr (), [''results/apartments_20240101_090000.json'' \<mapsto> ''a;b;'',
                         ''results/latest.json'' \<mapsto> ''a;b;''])"
    by (simp add: save_results_def write_json_def lines_io_def)
  have h: "dump lines_io ''results/latest.json'' [''a'', ''b''] = Inr ''a;b;''"
          "open_r full_disk_io ''results/latest.json'' = None"
          "load full_disk_io ''a;b;'' = Inr [''a'', ''b'']"
          "makedirs full_disk_io = None"
          "open_w full_disk_io ''results/apartments_20240101_110000.json'' = None"
          "dump full_disk_io ''results/apartments_20240101_110000.json'' [''c''] = Inr ''c;''"
          "open_w full_disk_io ''results/latest.json'' = None"
          "dump full_disk_io ''results/latest.json'' [''c''] = Inl (Exception ''OSError'', [])"
    by (simp_all add: lines_io_def full_disk_io_def)
  note t1 = latest_after_save
              [where io = lines_io and now = "''20240101_090000''" and rs = "[''a'', ''b'']"
                 and fs = Map.empty and rd = full_disk_io,
               THEN conjunct1, rule_format, OF a]
  note t2 = latest_after_save
              [where io = full_disk_io and now = "''20240101_110000''" and rs = "[''c'']"
                 and fs = "[''results/latest.json'' \<mapsto> ''a;b;'']" and rd = full_disk_io,
               THEN conjunct2, rule_format,
               where ?s1.0 = "''c;''" and e = "Exception ''OSError''" and part = "[]"]
  have r: "api_latest full_disk_io
             [''results/apartments_20240101_090000.json'' \<mapsto> ''a;b;'',
              ''results/latest.json'' \<mapsto> ''a;b;''] = Inr [''a'', ''b'']"
    using t1 h by auto
  have w: "save_results full_disk_io ''20240101_110000'' [''c'']
               [''results/latest.json'' \<mapsto> ''a;b;'']
             = (Inl (Exception ''OSError''),
                [''results/latest.json'' \<mapsto> ''a;b;'',
                 ''results/apartments_20240101_110000.json'' \<mapsto> ''c;'',
                 ''results/latest.json'' \<mapsto> []])"
    using t2 h by simp
  show ?thesis
    using a h r w by simp
qed

subsection \<open>A save that fails during a cycle\<close>




subsection \<open>The worker loop\<close>







section \<open>Properties of run.py\<close>

subsection \<open>The report is never produced\<close>

text \<open>
  The first style rule of the template is read by \<^verbatim>\<open>str.format\<close> as a replacement
  field named \<^verbatim>\<open> font-family\<close>, with the rest of the rule as its format specification.
  No keyword argument has that name, so \<^verbatim>\<open>html.format(...)\<close> raises \<^verbatim>\<open>KeyError\<close>,
  whatever follows in the template, and \<^verbatim>\<open>generate_html_report\<close> never returns: line
  91 of \<^verbatim>\<open>search_apartments\<close> raises on every call that reaches it, after the JSON
  file is written and before the notification.
\<close>

lemma template_KeyError:
  "map_of kw '' font-family'' = None \<Longrightarrow>
   py_format (field_value fin kw) Text (html_template r) = Inl (Exception ''KeyError'')"
  by (simp add: html_template_def html_head_def emit_def field_value_def is_digit_def)

lemma report_raises: "\<exists>e. generate_html_report R now aps = Inl e"
  by (cases "blocks R aps") (simp_all add: generate_html_report_def then_r_def template_KeyError)

lemma report_never_returns: "generate_html_report R now aps \<noteq> Inr h"
  using report_raises [of R now aps] by auto

lemma report_KeyError:
  "blocks R aps = Inr b \<Longrightarrow> generate_html_report R now aps = Inl (Exception ''KeyError'')"
  by (simp add: generate_html_report_def then_r_def template_KeyError)

lemma cycle_raises: "\<exists>e. fst (search_apartments B R c w) = Inl e"
  by (auto simp: search_apartments_def Let_def report_never_returns
           split: sum.splits option.splits prod.splits)








subsection \<open>The criteria of a cycle\<close>




subsection \<open>Notification\<close>





section \<open>Properties of the deduplicator\<close>

lemma filter_loop_new:
  "fst (filter_loop stamp previous ls index)
     = filter (\<lambda>l. identity l \<notin> dom previous) ls"
proof (induction ls arbitrary: index)
  case Nil
  then show ?case by simp
next
  case (Cons l ls)
  obtain new updated
    where r: "filter_loop stamp previous ls (index(identity l \<mapsto> stamp)) = (new, updated)"
    by (cases "filter_loop stamp previous ls (index(identity l \<mapsto> stamp))")
  have "fst (filter_loop stamp previous ls (index(identity l \<mapsto> stamp)))
          = filter (\<lambda>l. identity l \<notin> dom previous) ls"
    by (rule Cons.IH)
  then have "new = filter (\<lambda>l. identity l \<notin> dom previous) ls"
    unfolding r by simp
  with r show ?case by (simp add: domIff)
qed

lemma filter_loop_index:
  "snd (filter_loop stamp previous ls index) i
     = (if i \<in> identity ` set ls then Some stamp else index i)"
proof (induction ls arbitrary: index)
  case Nil
  then show ?case by simp
next
  case (Cons l ls)
  obtain new updated
    where r: "filter_loop stamp previous ls (index(identity l \<mapsto> stamp)) = (new, updated)"
    by (cases "filter_loop stamp previous ls (index(identity l \<mapsto> stamp))")
  have "snd (filter_loop stamp previous ls (index(identity l \<mapsto> stamp))) i
          = (if i \<in> identity ` set ls then Some stamp
             else (index(identity l \<mapsto> stamp)) i)"
    by (rule Cons.IH)
  then have "updated i = (if i \<in> identity ` set ls then Some stamp
                          else (index(identity l \<mapsto> stamp)) i)"
    unfolding r by simp
  with r show ?case by auto
qed

text \<open>
  C2: for every index \<open>previous\<close> and every incoming result set, \<open>filterNew\<close> returns
  as new listings exactly the listings whose identity is not a key of \<open>previous\<close>, in
  the order of the provider; in the updated index every identity of the incoming
  listings, new or already present, maps to \<open>capturedAt\<close> of the incoming set, and
  every other identity keeps the stamp it had; and when \<open>previous\<close> has the keys a and
  b and the incoming identities are a, b, c, the only new listing is c.
\<close>

theorem filterNew_new_and_index:
  "fst (filterNew previous incoming)
     = filter (\<lambda>l. identity l \<notin> dom previous) (listings incoming) \<and>
   (\<forall>l \<in> set (listings incoming).
      snd (filterNew previous incoming) (identity l) = Some (capturedAt incoming)) \<and>
   (\<forall>i. i \<notin> identity ` set (listings incoming)
        \<longrightarrow> snd (filterNew previous incoming) i = previous i) \<and>
   (\<forall>a b c. dom previous = {a, b} \<and> map identity (listings incoming) = [a, b, c] \<and>
            c \<noteq> a \<and> c \<noteq> b
        \<longrightarrow> map identity (fst (filterNew previous incoming)) = [c])"
proof (intro conjI allI impI ballI)
  show "fst (filterNew previous incoming)
          = filter (\<lambda>l. identity l \<notin> dom previous) (listings incoming)"
    by (simp add: filterNew_def filter_loop_new)
next
  fix l assume "l \<in> set (listings incoming)"
  then show "snd (filterNew previous incoming) (identity l) = Some (capturedAt incoming)"
    by (simp add: filterNew_def filter_loop_index)
next
  fix i assume "i \<notin> identity ` set (listings incoming)"
  then show "snd (filterNew previous incoming) i = previous i"
    by (simp add: filterNew_def filter_loop_index)
next
  fix a b c
  assume h: "dom previous = {a, b} \<and> map identity (listings incoming) = [a, b, c] \<and>
             c \<noteq> a \<and> c \<noteq> b"
  then obtain x y z where l: "listings incoming = [x, y, z]"
    and i: "identity x = a" "identity y = b" "identity z = c"
    by (auto simp: map_eq_Cons_conv)
  from h obtain va vb where d: "previous a = Some va" "previous b = Some vb" "previous c = None"
    by (metis domD domIff insertCI insertE singletonD)
  have "fst (filterNew previous incoming) = [z]"
    using d l i by (simp add: filterNew_def filter_loop_new domIff)
  with i show "map identity (fst (filterNew previous incoming)) = [c]"
    by simp
qed

theorem filterNew_new_and_index_witness:
  "fst (filterNew seen_ab incoming_abc) = [item ''c''] \<and>
   item ''c'' \<in> set (listings incoming_abc) \<and>
   snd (filterNew seen_ab incoming_abc) (identity (item ''c'')) = Some 2 \<and>
   ''d'' \<notin> identity ` set (listings incoming_abc) \<and>
   snd (filterNew seen_ab incoming_abc) ''d'' = None \<and>
   dom seen_ab = {''a'', ''b''} \<and>
   map identity (listings incoming_abc) = [''a'', ''b'', ''c''] \<and>
   map identity (fst (filterNew seen_ab incoming_abc)) = [''c'']"
  using filterNew_new_and_index [of seen_ab incoming_abc]
  by (auto simp: seen_ab_def incoming_abc_def item_def)

end
